theory Spec2Isabelle
  imports Complex_Main
begin

section \<open>Data model of \<^verbatim>\<open>Polynomial\<close> (drake/util/Polynomial.cpp)\<close>

text \<open>
  \<^verbatim>\<open>VarType\<close> is \<^verbatim>\<open>unsigned int\<close>: a natural number below \<open>2^32\<close>, with the
  wrap-around written out where the code computes on it (\<open>variableNameToId\<close>).
  \<^verbatim>\<open>PowerType\<close> is \<^verbatim>\<open>int\<close>.

  \<^verbatim>\<open>CoefficientType\<close> is the template parameter of the class: it is the type variable
  \<open>'a\<close>, and the operators the template applies to coefficients (\<open>+\<close>, \<open>-\<close>, \<open>*\<close>,
  \<open>/\<close>) are those of the type classes \<open>plus\<close>, \<open>minus\<close>, \<open>uminus\<close>, \<open>times\<close> and
  \<open>inverse\<close>, which fix the operations and assume no law about them. What is proved for
  every \<open>'a\<close> therefore holds for any coefficient arithmetic, the rounding arithmetic
  of \<^verbatim>\<open>double\<close> included. The conversion of an \<^verbatim>\<open>int\<close> to a coefficient and
  \<^verbatim>\<open>std::pow\<close> are parameters of the functions that use them. The scenarios with
  concrete numbers are stated for \<open>'a = real\<close>; the numbers in them are small integers,
  on which \<^verbatim>\<open>double\<close> computes exactly.

  \<^verbatim>\<open>Term::operator==\<close> (used by \<^verbatim>\<open>std::find\<close> in \<open>hasSameExponents\<close>) compares
  variable and power; it is the equality of the record.
\<close>

type_synonym VarType = nat
type_synonym PowerType = int

record Term =
  var :: VarType
  power_t :: PowerType

record 'a Monomial =
  coefficient :: 'a
  terms :: "Term list"

record 'a Polynomial =
  monomials :: "'a Monomial list"
  is_univariate :: bool

text \<open>Every \<^verbatim>\<open>throw runtime_error(...)\<close> of the two source files, by its message.\<close>

datatype error =
    NotUnivariate        \<comment> \<open>"getCoefficients is only defined for univariate polynomials"\<close>
  | UnknownVariable      \<comment> \<open>"don't know the variable name"\<close>
  | NameExceedsMax       \<comment> \<open>"name exceeds max allowed"\<close>
  | IdExceedsMax         \<comment> \<open>"name exceeds max ID"\<close>
  | MNotPositive         \<comment> \<open>"m must be >0"\<close>
  | NotSimple            \<comment> \<open>"q, s, and c must all be simple polynomials"\<close>
  | UnsupportedDegree    \<comment> \<open>"sin/cos of polynomials with degree > 1 is not supported"\<close>
  | UnmappedVariable     \<comment> \<open>"... a variable that does not exist in my sin_cos_map"\<close>
  | PleaseImplementMe    \<comment> \<open>"Drake:TrigPoly:PleaseImplementMe ..."\<close>
  | OutOfRange           \<comment> \<open>an index outside the vector (undefined behaviour in C++)\<close>

section \<open>Monomials\<close>

definition hasSameExponents :: "'a Monomial \<Rightarrow> 'a Monomial \<Rightarrow> bool" where
  "hasSameExponents this other =
     (if length (terms this) \<noteq> length (terms other) then False
      else list_all (\<lambda>t. t \<in> set (terms other)) (terms this))"

definition Monomial_getDegree :: "'a Monomial \<Rightarrow> int" where
  "Monomial_getDegree m =
     (case terms m of [] \<Rightarrow> 0
      | t # ts \<Rightarrow> foldl (\<lambda>degree t'. degree * power_t t') (power_t t) ts)"

section \<open>De-duplication: \<^verbatim>\<open>makeMonomialsUnique\<close>\<close>

text \<open>
  The inner loop \<^verbatim>\<open>for (j = 0; j < (i - 1); j++)\<close> looks for the first \<open>j\<close> with the
  exponents of monomial \<open>i\<close>. \<open>first_match\<close> is run on the monomials at the indices
  \<open>0 .. i - 2\<close>, that is on \<open>take (i - 1)\<close> of the vector (for \<open>i = 0\<close> the C++ bound is
  \<open>-1\<close> and the loop does not run; \<open>take 0\<close> is the same).
\<close>

fun first_match :: "'a Monomial \<Rightarrow> 'a Monomial list \<Rightarrow> nat option" where
  "first_match mi [] = None"
| "first_match mi (mj # rest) =
     (if hasSameExponents mi mj then Some 0 else map_option Suc (first_match mi rest))"

definition erase :: "nat \<Rightarrow> 'a list \<Rightarrow> 'a list" where
  "erase i xs = take i xs @ drop (Suc i) xs"

text \<open>The update of \<^verbatim>\<open>is_univariate\<close> and \<^verbatim>\<open>unique_var\<close> at the head of an iteration.\<close>

definition mmu_flags :: "'a Monomial \<Rightarrow> bool \<times> VarType \<Rightarrow> bool \<times> VarType" where
  "mmu_flags mi st =
     (case st of (uni, unique_var) \<Rightarrow>
        (case terms mi of [] \<Rightarrow> (uni, unique_var)
         | t0 # ts \<Rightarrow>
             (let uni1 = (if length (terms mi) > 1 then False else uni) in
              if var t0 \<noteq> unique_var
              then (if unique_var > 0 then (False, unique_var) else (uni1, var t0))
              else (uni1, unique_var))))"

text \<open>
  The outer loop \<^verbatim>\<open>for (i = size - 1; i >= 0; i--)\<close>: \<open>mmu_loop n\<close> runs the iterations
  \<open>i = n - 1, ..., 0\<close>. An iteration erases at most the monomial \<open>i\<close> itself, so \<open>i\<close> is
  always inside the vector.
\<close>

fun mmu_loop ::
  "nat \<Rightarrow> ('a::plus) Monomial list \<Rightarrow> bool \<times> VarType \<Rightarrow> 'a Monomial list \<times> bool" where
  "mmu_loop 0 ms st = (ms, fst st)"
| "mmu_loop (Suc i) ms st =
     (let mi = ms ! i;
          st' = mmu_flags mi st;
          ms' = (case first_match mi (take (i - 1) ms) of
                   None \<Rightarrow> ms
                 | Some j \<Rightarrow>
                     erase i (ms[j := (ms ! j)\<lparr>coefficient :=
                                        coefficient (ms ! j) + coefficient mi\<rparr>]))
      in mmu_loop i ms' st')"

definition makeMonomialsUnique :: "('a::plus) Polynomial \<Rightarrow> 'a Polynomial" where
  "makeMonomialsUnique p =
     (case mmu_loop (length (monomials p)) (monomials p) (is_univariate p, 0) of
        (ms, uni) \<Rightarrow> \<lparr>monomials = ms, is_univariate = uni\<rparr>)"

section \<open>Constructors\<close>

text \<open>\<^verbatim>\<open>Polynomial(const CoefficientType& scalar)\<close>: one constant monomial.\<close>

definition Polynomial_scalar :: "'a \<Rightarrow> 'a Polynomial" where
  "Polynomial_scalar scalar =
     \<lparr>monomials = [\<lparr>coefficient = scalar, terms = []\<rparr>], is_univariate = True\<rparr>"

text \<open>
  \<^verbatim>\<open>Polynomial(coefficient, terms)\<close>: the loop over \<open>i = size - 1, ..., 0\<close> clears the
  flag when a term's variable differs from the first one, and merges term \<open>i\<close> into the
  first term \<open>j < i - 1\<close> of the same variable.
\<close>

fun first_var_match :: "VarType \<Rightarrow> Term list \<Rightarrow> nat option" where
  "first_var_match v [] = None"
| "first_var_match v (tj # rest) =
     (if v = var tj then Some 0 else map_option Suc (first_var_match v rest))"

fun terms_loop :: "nat \<Rightarrow> Term list \<Rightarrow> bool \<Rightarrow> Term list \<times> bool" where
  "terms_loop 0 ts uni = (ts, uni)"
| "terms_loop (Suc i) ts uni =
     (let uni' = (if i > 0 \<and> var (ts ! i) \<noteq> var (ts ! 0) then False else uni);
          ts' = (case first_var_match (var (ts ! i)) (take (i - 1) ts) of
                   None \<Rightarrow> ts
                 | Some j \<Rightarrow>
                     erase i (ts[j := (ts ! j)\<lparr>power_t := power_t (ts ! j) + power_t (ts ! i)\<rparr>]))
      in terms_loop i ts' uni')"

definition Polynomial_terms :: "'a \<Rightarrow> Term list \<Rightarrow> 'a Polynomial" where
  "Polynomial_terms c ts =
     (case terms_loop (length ts) ts True of
        (ts', uni) \<Rightarrow> \<lparr>monomials = [\<lparr>coefficient = c, terms = ts'\<rparr>], is_univariate = uni\<rparr>)"

text \<open>\<^verbatim>\<open>Polynomial(start, finish)\<close>: copies the range, then de-duplicates.\<close>

definition Polynomial_range :: "('a::plus) Monomial list \<Rightarrow> 'a Polynomial" where
  "Polynomial_range ms = makeMonomialsUnique \<lparr>monomials = ms, is_univariate = True\<rparr>"

text \<open>\<^verbatim>\<open>Polynomial(coeff, v)\<close>: the monomial \<open>coeff * v^1\<close>.\<close>

definition Polynomial_coeff_var :: "'a \<Rightarrow> VarType \<Rightarrow> 'a Polynomial" where
  "Polynomial_coeff_var coeff v =
     \<lparr>monomials = [\<lparr>coefficient = coeff, terms = [\<lparr>var = v, power_t = 1\<rparr>]\<rparr>],
      is_univariate = True\<rparr>"

section \<open>Arithmetic\<close>

text \<open>
  The compound assignments take \<^verbatim>\<open>*this\<close> and return its new value. The operand is a
  value: the case where \<^verbatim>\<open>other\<close> is the object \<^verbatim>\<open>*this\<close> itself (the loop would push
  onto the vector it iterates) is outside the model.
\<close>

definition Polynomial_plus_eq :: "('a::plus) Polynomial \<Rightarrow> 'a Polynomial \<Rightarrow> 'a Polynomial" where
  "Polynomial_plus_eq this other =
     makeMonomialsUnique (this\<lparr>monomials := monomials this @ monomials other\<rparr>)"

definition Polynomial_minus_eq ::
  "('a::{plus,times,uminus,one}) Polynomial \<Rightarrow> 'a Polynomial \<Rightarrow> 'a Polynomial" where
  "Polynomial_minus_eq this other =
     makeMonomialsUnique (this\<lparr>monomials := monomials this @
        map (\<lambda>m. m\<lparr>coefficient := coefficient m * (- 1)\<rparr>) (monomials other)\<rparr>)"

text \<open>
  \<^verbatim>\<open>operator*=\<close>: for a term of the right monomial, the \<open>j\<close> loop adds its power to
  the first term of \<open>m\<close> with the same variable, or else the term is appended.
\<close>

fun mul_term :: "Term list \<Rightarrow> Term \<Rightarrow> Term list" where
  "mul_term [] t = [t]"
| "mul_term (mt # rest) t =
     (if var mt = var t then mt\<lparr>power_t := power_t mt + power_t t\<rparr> # rest
      else mt # mul_term rest t)"

definition mul_monomial :: "('a::times) Monomial \<Rightarrow> 'a Monomial \<Rightarrow> 'a Monomial" where
  "mul_monomial a b =
     \<lparr>coefficient = coefficient a * coefficient b,
      terms = foldl mul_term (terms a) (terms b)\<rparr>"

definition Polynomial_times_eq ::
  "('a::{plus,times}) Polynomial \<Rightarrow> 'a Polynomial \<Rightarrow> 'a Polynomial" where
  "Polynomial_times_eq this other =
     makeMonomialsUnique (this\<lparr>monomials :=
        concat (map (\<lambda>a. map (\<lambda>b. mul_monomial a b) (monomials other)) (monomials this))\<rparr>)"

text \<open>The scalar forms: \<^verbatim>\<open>operator+=(scalar)\<close>, \<^verbatim>\<open>-=\<close>, \<^verbatim>\<open>*=\<close>, \<^verbatim>\<open>/=\<close>.\<close>

text \<open>
  \<open>update_constant f\<close> is the loop that looks for the first monomial without terms and
  updates its coefficient (\<^verbatim>\<open>+= scalar\<close> or \<^verbatim>\<open>-= scalar\<close>); \<open>None\<close> when there is none.
\<close>

fun update_constant :: "('a \<Rightarrow> 'a) \<Rightarrow> 'a Monomial list \<Rightarrow> 'a Monomial list option" where
  "update_constant f [] = None"
| "update_constant f (m # ms) =
     (if terms m = [] then Some (m\<lparr>coefficient := f (coefficient m)\<rparr> # ms)
      else map_option (\<lambda>ms'. m # ms') (update_constant f ms))"

definition Polynomial_plus_eq_scalar :: "('a::plus) Polynomial \<Rightarrow> 'a \<Rightarrow> 'a Polynomial" where
  "Polynomial_plus_eq_scalar this scalar =
     (case update_constant (\<lambda>c. c + scalar) (monomials this) of
        Some ms \<Rightarrow> this\<lparr>monomials := ms\<rparr>
      | None \<Rightarrow> this\<lparr>monomials := monomials this @ [\<lparr>coefficient = scalar, terms = []\<rparr>]\<rparr>)"

definition Polynomial_minus_eq_scalar ::
  "('a::{minus,uminus}) Polynomial \<Rightarrow> 'a \<Rightarrow> 'a Polynomial" where
  "Polynomial_minus_eq_scalar this scalar =
     (case update_constant (\<lambda>c. c - scalar) (monomials this) of
        Some ms \<Rightarrow> this\<lparr>monomials := ms\<rparr>
      | None \<Rightarrow> this\<lparr>monomials := monomials this @ [\<lparr>coefficient = - scalar, terms = []\<rparr>]\<rparr>)"

definition Polynomial_times_eq_scalar :: "('a::times) Polynomial \<Rightarrow> 'a \<Rightarrow> 'a Polynomial" where
  "Polynomial_times_eq_scalar this scalar =
     this\<lparr>monomials := map (\<lambda>m. m\<lparr>coefficient := coefficient m * scalar\<rparr>) (monomials this)\<rparr>"

text \<open>The value-returning forms copy \<^verbatim>\<open>*this\<close> and apply the compound assignment.\<close>

definition Polynomial_plus :: "('a::plus) Polynomial \<Rightarrow> 'a Polynomial \<Rightarrow> 'a Polynomial" where
  "Polynomial_plus this other = Polynomial_plus_eq this other"

definition Polynomial_minus ::
  "('a::{plus,times,uminus,one}) Polynomial \<Rightarrow> 'a Polynomial \<Rightarrow> 'a Polynomial" where
  "Polynomial_minus this other = Polynomial_minus_eq this other"

definition Polynomial_times ::
  "('a::{plus,times}) Polynomial \<Rightarrow> 'a Polynomial \<Rightarrow> 'a Polynomial" where
  "Polynomial_times this other = Polynomial_times_eq this other"

section \<open>Degree, coefficients\<close>

definition getDegree :: "'a Polynomial \<Rightarrow> int" where
  "getDegree p =
     foldl (\<lambda>max_degree m.
              if Monomial_getDegree m > max_degree then Monomial_getDegree m else max_degree)
           0 (monomials p)"

definition getSimpleVariable :: "'a Polynomial \<Rightarrow> VarType" where
  "getSimpleVariable p =
     (case monomials p of
        [m] \<Rightarrow> (case terms m of [t] \<Rightarrow> (if power_t t \<noteq> 1 then 0 else var t) | _ \<Rightarrow> 0)
      | _ \<Rightarrow> 0)"

text \<open>
  \<^verbatim>\<open>getCoefficients\<close>: a zero vector of size \<open>deg + 1\<close>, then one assignment per
  monomial, in order, at the index \<open>0\<close> (no terms) or \<^verbatim>\<open>terms[0].power\<close>. An index
  outside the vector is undefined in C++; the model returns \<open>OutOfRange\<close>.
\<close>

fun set_coefficients :: "'a Monomial list \<Rightarrow> 'a list \<Rightarrow> error + 'a list" where
  "set_coefficients [] cs = Inr cs"
| "set_coefficients (m # ms) cs =
     (let k = (case terms m of [] \<Rightarrow> 0 | t # ts \<Rightarrow> power_t t) in
      if k < 0 \<or> int (length cs) \<le> k then Inl OutOfRange
      else set_coefficients ms (cs[nat k := coefficient m]))"

definition getCoefficients :: "('a::zero) Polynomial \<Rightarrow> error + 'a list" where
  "getCoefficients p =
     (if \<not> is_univariate p then Inl NotUnivariate
      else set_coefficients (monomials p) (replicate (nat (getDegree p + 1)) 0))"

section \<open>The naming scheme\<close>

text \<open>
  The constants of the source. \<^verbatim>\<open>kNameChars\<close> is a C string: its 30 characters are
  followed by the terminator \<open>NUL\<close>. \<^verbatim>\<open>unsigned int\<close> arithmetic wraps modulo \<open>2^32\<close>
  (\<open>u32\<close>).
\<close>

definition kNameChars :: string where
  "kNameChars = ''@#_.abcdefghijklmnopqrstuvwxyz''"

definition kNumNameChars :: nat where
  "kNumNameChars = 30"

definition kNameLength :: nat where
  "kNameLength = 4"

definition kMaxNamePart :: nat where
  "kMaxNamePart = 923521"

definition u32 :: "nat \<Rightarrow> nat" where
  "u32 n = n mod 2 ^ 32"

text \<open>
  \<^verbatim>\<open>strchr(s, c)\<close> of the C library, as the offset of the first occurrence of \<open>c\<close> in
  the C string \<open>s\<close>, the terminator included (so \<open>NUL\<close> is found, at the end), or
  \<open>None\<close> for the null pointer.
\<close>

fun strchr :: "string \<Rightarrow> char \<Rightarrow> nat option" where
  "strchr [] c = (if c = CHR 0x00 then Some 0 else None)"
| "strchr (x # xs) c = (if x = c then Some 0 else map_option Suc (strchr xs c))"

definition isValidVariableName :: "string \<Rightarrow> bool" where
  "isValidVariableName name =
     (if length name < 1 then False
      else list_all (\<lambda>c. strchr kNameChars c \<noteq> None) name)"

text \<open>
  \<^verbatim>\<open>variableNameToId\<close> does not test the result of \<^verbatim>\<open>strchr\<close>: for a character that
  is not found it computes \<^verbatim>\<open>static_cast<VarType>(NULL - kNameChars)\<close>, which C++ leaves
  undefined and which in practice depends on the address of \<^verbatim>\<open>kNameChars\<close>. That value
  is the parameter \<open>null_offset\<close>. The loop runs over the name from its last character
  to its first, with the state \<open>(multiplier, name_part)\<close>.
\<close>

definition name_offset :: "nat \<Rightarrow> char \<Rightarrow> nat" where
  "name_offset null_offset c =
     (case strchr kNameChars c of Some k \<Rightarrow> k | None \<Rightarrow> null_offset)"

definition name_step :: "nat \<Rightarrow> nat \<times> nat \<Rightarrow> char \<Rightarrow> nat \<times> nat" where
  "name_step null_offset st c =
     (case st of (multiplier, name_part) \<Rightarrow>
        (u32 (multiplier * (kNumNameChars + 1)),
         u32 (name_part + u32 (u32 (name_offset null_offset c + 1) * multiplier))))"

definition maxId :: nat where
  "maxId = (2 ^ 32 - 1) div 2 div kMaxNamePart"

definition variableNameToId :: "nat \<Rightarrow> string \<Rightarrow> nat \<Rightarrow> error + VarType" where
  "variableNameToId null_offset name m =
     (let name_part = snd (foldl (name_step null_offset) (1, 0) (rev name)) in
      if name_part > kMaxNamePart then Inl NameExceedsMax
      else if m > maxId then Inl IdExceedsMax
      else if m < 1 then Inl MNotPositive
      else Inr (u32 (2 * u32 (name_part + u32 (kMaxNamePart * (m - 1))))))"

text \<open>\<^verbatim>\<open>std::to_string\<close> of an \<^verbatim>\<open>unsigned int\<close>: the decimal digits.\<close>

fun to_string :: "nat \<Rightarrow> string" where
  "to_string n =
     (if n < 10 then [''0123456789'' ! n]
      else to_string (n div 10) @ [''0123456789'' ! (n mod 10)])"

declare to_string.simps [simp del]

text \<open>
  \<^verbatim>\<open>idToVariableName\<close>: \<open>id_loop n\<close> runs \<open>n\<close> iterations of the loop that reads the
  digits of \<open>name_part\<close> in base 31 from the most significant one and skips the zeros;
  the index \<open>name_ind - 1\<close> is below 30.
\<close>

fun id_loop :: "nat \<Rightarrow> nat \<Rightarrow> nat \<Rightarrow> string" where
  "id_loop 0 name_part multiplier = []"
| "id_loop (Suc n) name_part multiplier =
     (let name_ind = (name_part div multiplier) mod (kNumNameChars + 1) in
      (if name_ind > 0 then [kNameChars ! (name_ind - 1)] else [])
      @ id_loop n name_part (multiplier div (kNumNameChars + 1)))"

definition idToVariableName :: "VarType \<Rightarrow> string" where
  "idToVariableName ident =
     (let name_part = (ident div 2) mod kMaxNamePart;
          m = u32 (ident div 2 div kMaxNamePart);
          multiplier = (kNumNameChars + 1) ^ (kNameLength - 1);
          name = id_loop kNameLength name_part multiplier;
          name' = (if name = [] then [kNameChars ! 0] else name)
      in name' @ to_string (u32 (m + 1)))"

text \<open>\<^verbatim>\<open>Polynomial(varname, num)\<close>: the monomial \<open>1 * v^1\<close> of the named variable.\<close>

definition Polynomial_var :: "nat \<Rightarrow> string \<Rightarrow> nat \<Rightarrow> error + ('a::one) Polynomial" where
  "Polynomial_var null_offset varname num =
     (case variableNameToId null_offset varname num of
        Inl e \<Rightarrow> Inl e
      | Inr v \<Rightarrow> Inr (Polynomial_coeff_var 1 v))"

section \<open>Substitution and partial evaluation\<close>

text \<open>\<^verbatim>\<open>subs(orig, replacement)\<close> renames the variable in every term of every monomial.\<close>

definition subs :: "'a Polynomial \<Rightarrow> VarType \<Rightarrow> VarType \<Rightarrow> 'a Polynomial" where
  "subs this orig replacement =
     this\<lparr>monomials :=
       map (\<lambda>m. m\<lparr>terms := map (\<lambda>t. if var t = orig then t\<lparr>var := replacement\<rparr> else t)
                                (terms m)\<rparr>)
           (monomials this)\<rparr>"




section \<open>Calculus\<close>







section \<open>\<^verbatim>\<open>TrigPoly\<close> (drake/util/TrigPoly.h)\<close>

text \<open>
  The fields \<^verbatim>\<open>s\<close> and \<^verbatim>\<open>c\<close> of \<^verbatim>\<open>SinCosVars\<close> are \<open>s_var\<close> and \<open>c_var\<close> here.
  \<^verbatim>\<open>SinCosMap\<close> is a \<^verbatim>\<open>std::map\<close>: a finite map from variables to \<^verbatim>\<open>SinCosVars\<close>.
\<close>

record SinCosVars =
  s_var :: VarType
  c_var :: VarType

type_synonym SinCosMap = "VarType \<rightharpoonup> SinCosVars"

record 'a TrigPoly =
  poly :: "'a Polynomial"
  sin_cos_map :: SinCosMap

definition TrigPoly_scalar :: "'a \<Rightarrow> 'a TrigPoly" where
  "TrigPoly_scalar scalar = \<lparr>poly = Polynomial_scalar scalar, sin_cos_map = Map.empty\<rparr>"

definition TrigPoly_map :: "'a Polynomial \<Rightarrow> SinCosMap \<Rightarrow> 'a TrigPoly" where
  "TrigPoly_map p m = \<lparr>poly = p, sin_cos_map = m\<rparr>"

definition TrigPoly_qsc ::
  "'a Polynomial \<Rightarrow> 'a Polynomial \<Rightarrow> 'a Polynomial \<Rightarrow> error + 'a TrigPoly" where
  "TrigPoly_qsc q s c =
     (if getDegree q \<noteq> 1 \<or> getDegree s \<noteq> 1 \<or> getDegree c \<noteq> 1 then Inl NotSimple
      else Inr \<lparr>poly = q,
                sin_cos_map = [getSimpleVariable q \<mapsto>
                  \<lparr>s_var = getSimpleVariable s, c_var = getSimpleVariable c\<rparr>]\<rparr>)"

text \<open>
  \<^verbatim>\<open>sin_cos_map.insert(other.sin_cos_map.begin(), other.sin_cos_map.end())\<close>:
  \<^verbatim>\<open>std::map::insert\<close> adds an element only if the map has no element with that key.
\<close>

definition map_insert_range :: "SinCosMap \<Rightarrow> SinCosMap \<Rightarrow> SinCosMap" where
  "map_insert_range this_map other_map =
     (\<lambda>k. case this_map k of Some v \<Rightarrow> Some v | None \<Rightarrow> other_map k)"

definition TrigPoly_plus_eq :: "('a::plus) TrigPoly \<Rightarrow> 'a TrigPoly \<Rightarrow> 'a TrigPoly" where
  "TrigPoly_plus_eq this other =
     \<lparr>poly = Polynomial_plus_eq (poly this) (poly other),
      sin_cos_map = map_insert_range (sin_cos_map this) (sin_cos_map other)\<rparr>"

definition TrigPoly_minus_eq ::
  "('a::{plus,times,uminus,one}) TrigPoly \<Rightarrow> 'a TrigPoly \<Rightarrow> 'a TrigPoly" where
  "TrigPoly_minus_eq this other =
     \<lparr>poly = Polynomial_minus_eq (poly this) (poly other),
      sin_cos_map = map_insert_range (sin_cos_map this) (sin_cos_map other)\<rparr>"

definition TrigPoly_times_eq :: "('a::{plus,times}) TrigPoly \<Rightarrow> 'a TrigPoly \<Rightarrow> 'a TrigPoly" where
  "TrigPoly_times_eq this other =
     \<lparr>poly = Polynomial_times_eq (poly this) (poly other),
      sin_cos_map = map_insert_range (sin_cos_map this) (sin_cos_map other)\<rparr>"

definition TrigPoly_times_eq_scalar :: "('a::times) TrigPoly \<Rightarrow> 'a \<Rightarrow> 'a TrigPoly" where
  "TrigPoly_times_eq_scalar this scalar =
     this\<lparr>poly := Polynomial_times_eq_scalar (poly this) scalar\<rparr>"

text \<open>The value-returning forms copy \<^verbatim>\<open>*this\<close> and apply the compound assignment.\<close>

definition TrigPoly_plus :: "('a::plus) TrigPoly \<Rightarrow> 'a TrigPoly \<Rightarrow> 'a TrigPoly" where
  "TrigPoly_plus this other = TrigPoly_plus_eq this other"

definition TrigPoly_minus ::
  "('a::{plus,times,uminus,one}) TrigPoly \<Rightarrow> 'a TrigPoly \<Rightarrow> 'a TrigPoly" where
  "TrigPoly_minus this other = TrigPoly_minus_eq this other"

definition TrigPoly_times :: "('a::{plus,times}) TrigPoly \<Rightarrow> 'a TrigPoly \<Rightarrow> 'a TrigPoly" where
  "TrigPoly_times this other = TrigPoly_times_eq this other"

text \<open>
  \<^verbatim>\<open>sin(p)\<close> and \<^verbatim>\<open>cos(p)\<close>, for real coefficients (the functions call the numeric
  \<open>sin\<close>, \<open>cos\<close> and \<open>abs\<close> on a coefficient). With one monomial the argument is a constant or
  \<open>k * v\<close>; with more, the first monomial \<open>a\<close> is split from the rest \<open>b\<close> and the
  angle-sum formula is applied. With no monomial at all the code reads \<^verbatim>\<open>m[0]\<close> of an
  empty vector; the model returns \<open>OutOfRange\<close>. C++ does not fix the order in which
  the four recursive calls of \<^verbatim>\<open>sin(a) * cos(b) + cos(a) * sin(b)\<close> run; the model
  takes them from left to right, which matters only for which error is reported when
  several calls fail.

  The recursion ends because \<open>a\<close> has one monomial and \<open>b\<close> has fewer monomials than
  \<open>p\<close>: de-duplication never lengthens the list.
\<close>

lemma length_erase: "length (erase i xs) \<le> length xs"
  by (simp add: erase_def)

lemma length_mmu_loop: "length (fst (mmu_loop n ms st)) \<le> length ms"
proof (induction n arbitrary: ms st)
  case 0
  then show ?case by simp
next
  case (Suc n)
  show ?case
  proof (cases "first_match (ms ! n) (take (n - 1) ms)")
    case None
    then show ?thesis using Suc.IH [of ms] by (simp add: Let_def)
  next
    case (Some j)
    let ?ms' = "erase n (ms[j := (ms ! j)\<lparr>coefficient :=
                   coefficient (ms ! j) + coefficient (ms ! n)\<rparr>])"
    have "length (fst (mmu_loop n ?ms' (mmu_flags (ms ! n) st))) \<le> length ?ms'"
      by (rule Suc.IH)
    also have "length ?ms' \<le> length ms"
      using length_erase [of n "ms[j := (ms ! j)\<lparr>coefficient :=
                   coefficient (ms ! j) + coefficient (ms ! n)\<rparr>]"] by simp
    finally show ?thesis using Some by (simp add: Let_def)
  qed
qed

lemma length_Polynomial_range: "length (monomials (Polynomial_range ms)) \<le> length ms"
  using length_mmu_loop [of "length ms" ms "(True, 0)"]
  by (cases "mmu_loop (length ms) ms (True, 0)")
     (simp add: Polynomial_range_def makeMonomialsUnique_def)

lemma length_Polynomial_range_Cons:
  "length (monomials (Polynomial_range (m # ms))) < Suc (Suc (length ms))"
  using length_Polynomial_range [of "m # ms"] by simp

lemma length_Polynomial_terms: "length (monomials (Polynomial_terms cf ts)) = 1"
  by (cases "terms_loop (length ts) ts True") (simp add: Polynomial_terms_def)

function TrigPoly_sin :: "real TrigPoly \<Rightarrow> error + real TrigPoly"
  and TrigPoly_cos :: "real TrigPoly \<Rightarrow> error + real TrigPoly" where
  "TrigPoly_sin p =
     (if getDegree (poly p) > 1 then Inl UnsupportedDegree
      else (case monomials (poly p) of
              [] \<Rightarrow> Inl OutOfRange
            | [m0] \<Rightarrow>
                (case terms m0 of
                   [] \<Rightarrow> Inr (p\<lparr>poly := Polynomial_scalar (sin (coefficient m0))\<rparr>)
                 | t0 # ts \<Rightarrow>
                     (case sin_cos_map p (var t0) of
                        None \<Rightarrow> Inl UnmappedVariable
                      | Some sc \<Rightarrow>
                          if \<bar>coefficient m0\<bar> \<noteq> 1 then Inl PleaseImplementMe
                          else Inr (p\<lparr>poly := subs (poly p) (var t0) (s_var sc)\<rparr>)))
            | m0 # m1 # rest \<Rightarrow>
                (let a = TrigPoly_map (Polynomial_terms (coefficient m0) (terms m0))
                                      (sin_cos_map p);
                     b = TrigPoly_map (Polynomial_range (m1 # rest)) (sin_cos_map p)
                 in case TrigPoly_sin a of Inl e \<Rightarrow> Inl e | Inr sin_a \<Rightarrow>
                    (case TrigPoly_cos b of Inl e \<Rightarrow> Inl e | Inr cos_b \<Rightarrow>
                    (case TrigPoly_cos a of Inl e \<Rightarrow> Inl e | Inr cos_a \<Rightarrow>
                    (case TrigPoly_sin b of Inl e \<Rightarrow> Inl e | Inr sin_b \<Rightarrow>
                       Inr (TrigPoly_plus (TrigPoly_times sin_a cos_b)
                                          (TrigPoly_times cos_a sin_b))))))))"
| "TrigPoly_cos p =
     (if getDegree (poly p) > 1 then Inl UnsupportedDegree
      else (case monomials (poly p) of
              [] \<Rightarrow> Inl OutOfRange
            | [m0] \<Rightarrow>
                (case terms m0 of
                   [] \<Rightarrow> Inr (p\<lparr>poly := Polynomial_scalar (cos (coefficient m0))\<rparr>)
                 | t0 # ts \<Rightarrow>
                     (case sin_cos_map p (var t0) of
                        None \<Rightarrow> Inl UnmappedVariable
                      | Some sc \<Rightarrow>
                          if \<bar>coefficient m0\<bar> \<noteq> 1 then Inl PleaseImplementMe
                          else (let ret = p\<lparr>poly := subs (poly p) (var t0) (c_var sc)\<rparr>
                                in if coefficient m0 = - 1
                                   then Inr (TrigPoly_times_eq_scalar ret (- 1))
                                   else Inr ret)))
            | m0 # m1 # rest \<Rightarrow>
                (let a = TrigPoly_map (Polynomial_terms (coefficient m0) (terms m0))
                                      (sin_cos_map p);
                     b = TrigPoly_map (Polynomial_range (m1 # rest)) (sin_cos_map p)
                 in case TrigPoly_cos a of Inl e \<Rightarrow> Inl e | Inr cos_a \<Rightarrow>
                    (case TrigPoly_cos b of Inl e \<Rightarrow> Inl e | Inr cos_b \<Rightarrow>
                    (case TrigPoly_sin a of Inl e \<Rightarrow> Inl e | Inr sin_a \<Rightarrow>
                    (case TrigPoly_sin b of Inl e \<Rightarrow> Inl e | Inr sin_b \<Rightarrow>
                       Inr (TrigPoly_minus (TrigPoly_times cos_a cos_b)
                                           (TrigPoly_times sin_a sin_b))))))))"
  by pat_completeness auto

termination
proof (relation "measure (\<lambda>x. case x of Inl p \<Rightarrow> length (monomials (poly p))
                                      | Inr p \<Rightarrow> length (monomials (poly p)))")
  show "wf (measure (\<lambda>x. case x of Inl p \<Rightarrow> length (monomials (poly p))
                                      | Inr p \<Rightarrow> length (monomials (poly p))))"
    by simp
qed (simp_all add: TrigPoly_map_def length_Polynomial_terms length_Polynomial_range_Cons)

declare TrigPoly_sin.simps [simp del] TrigPoly_cos.simps [simp del]

section \<open>The scenarios of the specification\<close>

text \<open>
  Modelled from the spec: the value-returning scalar subtraction
  \<^verbatim>\<open>operator-(const Polynomial&, const CoefficientType&)\<close> is declared in
  \<^verbatim>\<open>Polynomial.h\<close>, which is not among the sources. It is taken as the other
  value-returning forms are written: a copy, then the compound assignment
  \<^verbatim>\<open>operator-=(scalar)\<close>, which folds the scalar into the constant monomial or appends one.
\<close>

definition Polynomial_minus_scalar ::
  "('a::{minus,uminus}) Polynomial \<Rightarrow> 'a \<Rightarrow> 'a Polynomial" where
  "Polynomial_minus_scalar p scalar = Polynomial_minus_eq_scalar p scalar"

text \<open>\<^verbatim>\<open>Polynomial x("x"); Polynomial poly = (x - 1) * (x - 1);\<close>\<close>

definition x_minus_1_squared :: "nat \<Rightarrow> error + real Polynomial" where
  "x_minus_1_squared null_offset =
     (case Polynomial_var null_offset ''x'' 1 of
        Inl e \<Rightarrow> Inl e
      | Inr x \<Rightarrow> Inr (Polynomial_times (Polynomial_minus_scalar x 1)
                                       (Polynomial_minus_scalar x 1)))"

text \<open>
  \<^verbatim>\<open>Polynomial q("x"), s("s"), c("c"); TrigPoly x(q, s, c);\<close> and then
  \<^verbatim>\<open>cos(x + x)\<close>.
\<close>

definition trig_x :: "nat \<Rightarrow> error + real TrigPoly" where
  "trig_x null_offset =
     (case Polynomial_var null_offset ''x'' 1 of Inl e \<Rightarrow> Inl e | Inr q \<Rightarrow>
     (case Polynomial_var null_offset ''s'' 1 of Inl e \<Rightarrow> Inl e | Inr s \<Rightarrow>
     (case Polynomial_var null_offset ''c'' 1 of Inl e \<Rightarrow> Inl e | Inr c \<Rightarrow>
        TrigPoly_qsc q s c)))"

definition cos_x_plus_x :: "nat \<Rightarrow> error + real TrigPoly" where
  "cos_x_plus_x null_offset =
     (case trig_x null_offset of
        Inl e \<Rightarrow> Inl e
      | Inr x \<Rightarrow> TrigPoly_cos (TrigPoly_plus x x))"

text \<open>
  Predicates used to state the theorems. \<open>distinct_exponents ms\<close>: no monomial of
  \<open>ms\<close> has the exponents of an earlier one, in the sense of \<open>hasSameExponents\<close>
  (called on the later monomial with the earlier one as argument, as the code does).
  \<open>powers_ok m\<close>: the power of the first term of \<open>m\<close>, if there is one, is at least
  \<open>1\<close> and can be incremented inside \<^verbatim>\<open>int\<close>.
\<close>

fun distinct_exponents :: "'a Monomial list \<Rightarrow> bool" where
  "distinct_exponents [] = True"
| "distinct_exponents (m # ms) =
     (list_all (\<lambda>m'. \<not> hasSameExponents m' m) ms \<and> distinct_exponents ms)"





text \<open>The number that a list of digits denotes in base 31, most significant digit first.\<close>

fun base31 :: "nat list \<Rightarrow> nat" where
  "base31 [] = 0"
| "base31 (d # ds) = d * 31 ^ length ds + base31 ds"

section \<open>Evaluation rules and auxiliary facts\<close>

lemmas poly_eval =
  Polynomial_coeff_var_def Polynomial_scalar_def Polynomial_minus_eq_scalar_def
  Polynomial_minus_scalar_def Polynomial_times_eq_scalar_def
  Polynomial_plus_def Polynomial_plus_eq_def Polynomial_minus_def Polynomial_minus_eq_def
  Polynomial_times_def Polynomial_times_eq_def Polynomial_range_def Polynomial_terms_def
  makeMonomialsUnique_def mul_monomial_def hasSameExponents_def mmu_flags_def erase_def
  getDegree_def Monomial_getDegree_def getSimpleVariable_def subs_def Let_def

lemmas trig_eval =
  TrigPoly_plus_def TrigPoly_plus_eq_def TrigPoly_minus_def TrigPoly_minus_eq_def
  TrigPoly_times_def TrigPoly_times_eq_def TrigPoly_times_eq_scalar_def TrigPoly_map_def
  map_insert_range_def

lemma u32_id: "n < 4294967296 \<Longrightarrow> u32 n = n"
  by (simp add: u32_def)

lemma id_x: "variableNameToId null_offset ''x'' (Suc 0) = Inr 56"
  by (simp add: variableNameToId_def name_step_def name_offset_def kNameChars_def
      kNumNameChars_def kMaxNamePart_def maxId_def u32_id)

lemma id_s: "variableNameToId null_offset ''s'' (Suc 0) = Inr 46"
  by (simp add: variableNameToId_def name_step_def name_offset_def kNameChars_def
      kNumNameChars_def kMaxNamePart_def maxId_def u32_id)

lemma id_c: "variableNameToId null_offset ''c'' (Suc 0) = Inr 14"
  by (simp add: variableNameToId_def name_step_def name_offset_def kNameChars_def
      kNumNameChars_def kMaxNamePart_def maxId_def u32_id)

lemma replicate_3: "replicate 3 x = [x, x, x]"
  by (simp add: numeral_eq_Suc)

lemma update_2: "[a, b, c][2 := y] = [a, b, y]"
  by (simp add: numeral_eq_Suc)

lemma to_string_1: "to_string (Suc 0) = ''1''"
  by (subst to_string.simps) simp

lemma id_loop_4:
  "id_loop 4 np mult =
     (let i1 = (np div mult) mod 31; i2 = (np div (mult div 31)) mod 31;
          i3 = (np div (mult div 31 div 31)) mod 31;
          i4 = (np div (mult div 31 div 31 div 31)) mod 31
      in (if i1 > 0 then [kNameChars ! (i1 - 1)] else []) @
         (if i2 > 0 then [kNameChars ! (i2 - 1)] else []) @
         (if i3 > 0 then [kNameChars ! (i3 - 1)] else []) @
         (if i4 > 0 then [kNameChars ! (i4 - 1)] else []))"
proof -
  have "id_loop 4 np mult = id_loop (Suc (Suc (Suc (Suc 0)))) np mult"
    by (simp only: numeral_eq_Suc pred_numeral_simps Num.BitM.simps numeral_One One_nat_def)
  then show ?thesis by (simp add: kNumNameChars_def Let_def)
qed

lemma name_c1: "idToVariableName 14 = ''c1''"
  by (simp add: idToVariableName_def id_loop_4 kMaxNamePart_def kNumNameChars_def
      kNameLength_def kNameChars_def u32_id to_string_1 Let_def)

lemma name_s1: "idToVariableName 46 = ''s1''"
  by (simp add: idToVariableName_def id_loop_4 kMaxNamePart_def kNumNameChars_def
      kNameLength_def kNameChars_def u32_id to_string_1 Let_def)

subsection \<open>The naming scheme: encoding and decoding in base 31\<close>

lemma strchr_mem:
  "c \<in> set xs \<Longrightarrow> \<exists>k<length xs. strchr xs c = Some k \<and> xs ! k = c"
  by (induction xs) auto

lemma length_kNameChars: "length kNameChars = 30"
  by (simp add: kNameChars_def)

lemma name_offset_alpha:
  assumes "c \<in> set kNameChars"
  shows "name_offset off c < 30 \<and> kNameChars ! (name_offset off c) = c"
proof -
  from strchr_mem [OF assms] obtain k where "k < length kNameChars"
    "strchr kNameChars c = Some k" "kNameChars ! k = c" by blast
  then show ?thesis by (simp add: name_offset_def length_kNameChars)
qed

lemma name_offset_le: "c \<in> set kNameChars \<Longrightarrow> name_offset off c \<le> 29"
  using name_offset_alpha [of c off] by simp

lemma name_offset_nth: "c \<in> set kNameChars \<Longrightarrow> kNameChars ! name_offset off c = c"
  using name_offset_alpha [of c off] by simp

lemma base31_less: "list_all (\<lambda>d. d \<le> 30) ds \<Longrightarrow> base31 ds < 31 ^ length ds"
proof (induction ds)
  case Nil
  then show ?case by simp
next
  case (Cons d ds)
  then have 1: "d * 31 ^ length ds \<le> 30 * 31 ^ length ds" by simp
  from Cons have 2: "base31 ds < 31 ^ length ds" by simp
  have 3: "base31 (d # ds) = d * 31 ^ length ds + base31 ds" by simp
  have 4: "(31::nat) ^ length (d # ds) = 31 * 31 ^ length ds" by simp
  show ?case unfolding 3 4 using 1 2 by linarith
qed

lemma pow31_le: "k \<le> 4 \<Longrightarrow> (31::nat) ^ k \<le> 923521"
proof -
  assume "k \<le> 4"
  then have "(31::nat) ^ k \<le> 31 ^ 4" by (intro power_increasing) simp_all
  then show ?thesis by simp
qed

lemma encode_loop:
  "list_all (\<lambda>c. c \<in> set kNameChars) name \<Longrightarrow> length name \<le> 4 \<Longrightarrow>
   foldl (name_step off) (1, 0) (rev name) =
     (31 ^ length name, base31 (map (\<lambda>c. name_offset off c + 1) name))"
proof (induction name)
  case Nil
  then show ?case by simp
next
  case (Cons c cs)
  let ?ds = "map (\<lambda>c. name_offset off c + 1) cs"
  let ?k = "length cs"
  from Cons have ih: "foldl (name_step off) (1, 0) (rev cs) = (31 ^ ?k, base31 ?ds)"
    and c: "c \<in> set kNameChars" and k: "?k \<le> 3"
    and cs: "list_all (\<lambda>c. c \<in> set kNameChars) cs"
    by simp_all
  from name_offset_le [OF c, of off] have o: "name_offset off c + 1 \<le> 30" by simp
  have all: "list_all (\<lambda>d. d \<le> 30) ?ds"
    using cs by (induction cs) (simp_all add: name_offset_le)
  have len: "length ?ds = ?k" by simp
  have p: "(31::nat) ^ ?k \<le> 29791"
  proof -
    have "(31::nat) ^ ?k \<le> 31 ^ 3" using k by (intro power_increasing) simp_all
    then show ?thesis by simp
  qed
  have b: "base31 ?ds < 31 ^ ?k" using base31_less [OF all] unfolding len .
  have m: "(name_offset off c + 1) * 31 ^ ?k \<le> 30 * 29791"
    using o p by (rule mult_mono) simp_all
  have step: "foldl (name_step off) (1, 0) (rev (c # cs)) =
               name_step off (31 ^ ?k, base31 ?ds) c"
    using ih by simp
  have "name_step off (31 ^ ?k, base31 ?ds) c =
          (31 ^ Suc ?k, (name_offset off c + 1) * 31 ^ ?k + base31 ?ds)"
    using o p b m by (simp add: name_step_def kNumNameChars_def u32_id)
  with step show ?case by simp
qed

lemma id_loop_div: "id_loop n np (31 ^ n div 31) = id_loop n np (31 ^ (n - 1))"
  by (cases n) simp_all

lemma decode_loop:
  "list_all (\<lambda>d. 1 \<le> d \<and> d \<le> 30) ds \<Longrightarrow> length ds \<le> n \<Longrightarrow>
   id_loop n (x * 31 ^ n + base31 ds) (31 ^ (n - 1)) = map (\<lambda>d. kNameChars ! (d - 1)) ds"
proof (induction n arbitrary: ds x)
  case 0
  then show ?case by simp
next
  case (Suc n)
  have all: "list_all (\<lambda>d. d \<le> 30) ds"
    using Suc.prems(1) by (induction ds) simp_all
  show ?case
  proof (cases "length ds = Suc n")
    case True
    then obtain d ds' where ds: "ds = d # ds'" and len: "length ds' = n"
      by (cases ds) auto
    from Suc.prems(1) ds have d: "1 \<le> d" "d \<le> 30"
      and all': "list_all (\<lambda>d. 1 \<le> d \<and> d \<le> 30) ds'" by simp_all
    have b: "base31 ds' < 31 ^ n"
      using base31_less [of ds'] all ds len by simp
    have np: "x * 31 ^ Suc n + base31 ds = (x * 31 + d) * 31 ^ n + base31 ds'"
      by (simp add: ds len algebra_simps)
    have ind: "((x * 31 + d) * 31 ^ n + base31 ds') div 31 ^ n mod 31 = d"
      using b d by simp
    have rest: "id_loop n ((x * 31 + d) * 31 ^ n + base31 ds') (31 ^ (n - 1)) =
                  map (\<lambda>d. kNameChars ! (d - 1)) ds'"
      using Suc.IH [OF all', of "x * 31 + d"] len by simp
    show ?thesis
      unfolding np using ind rest d
      by (simp add: kNumNameChars_def id_loop_div ds)
  next
    case False
    with Suc.prems(2) have len: "length ds \<le> n" by simp
    have "base31 ds < 31 ^ length ds" using base31_less [OF all] .
    also have "(31::nat) ^ length ds \<le> 31 ^ n"
      using len by (intro power_increasing) simp_all
    finally have b: "base31 ds < 31 ^ n" .
    have np: "x * 31 ^ Suc n + base31 ds = (x * 31) * 31 ^ n + base31 ds"
      by (simp add: algebra_simps)
    have ind: "((x * 31) * 31 ^ n + base31 ds) div 31 ^ n mod 31 = 0"
      using b by simp
    have rest: "id_loop n ((x * 31) * 31 ^ n + base31 ds) (31 ^ (n - 1)) =
                  map (\<lambda>d. kNameChars ! (d - 1)) ds"
      using Suc.IH [OF Suc.prems(1) len, of "x * 31"] .
    show ?thesis
      unfolding np using ind rest
      by (simp add: kNumNameChars_def id_loop_div)
  qed
qed

subsection \<open>De-duplication of a list without duplicates\<close>







subsection \<open>The range constructor, one monomial at a time\<close>











subsection \<open>What de-duplication keeps and what it removes\<close>

lemma same_exponents_terms:
  "terms a = terms a' \<Longrightarrow> terms b = terms b' \<Longrightarrow>
   hasSameExponents a b = hasSameExponents a' b'"
  by (simp add: hasSameExponents_def)




lemma first_match_terms:
  "terms m = terms m' \<Longrightarrow> map terms xs = map terms xs' \<Longrightarrow>
   first_match m xs = first_match m' xs'"
proof (induction xs arbitrary: xs')
  case Nil
  then show ?case by simp
next
  case (Cons x xs)
  then obtain y ys where xs': "xs' = y # ys" and t: "terms x = terms y"
    and r: "map terms xs = map terms ys" by (cases xs') auto
  from Cons.IH [OF Cons.prems(1) r] same_exponents_terms [OF Cons.prems(1) t]
  show ?case by (simp add: xs')
qed








subsection \<open>Integration followed by differentiation\<close>






subsection \<open>Sine and cosine of a single variable\<close>

lemma sin_linear:
  assumes "monomials (poly p) = [\<lparr>coefficient = 1, terms = [\<lparr>var = v, power_t = 1\<rparr>]\<rparr>]"
    and "sin_cos_map p v = Some sc"
  shows "TrigPoly_sin p =
     Inr (p\<lparr>poly := (poly p)\<lparr>monomials :=
            [\<lparr>coefficient = 1, terms = [\<lparr>var = s_var sc, power_t = 1\<rparr>]\<rparr>]\<rparr>\<rparr>)"
  using assms
  by (simp add: TrigPoly_sin.simps [of p] getDegree_def Monomial_getDegree_def subs_def)

lemma cos_linear:
  assumes "monomials (poly p) = [\<lparr>coefficient = 1, terms = [\<lparr>var = v, power_t = 1\<rparr>]\<rparr>]"
    and "sin_cos_map p v = Some sc"
  shows "TrigPoly_cos p =
     Inr (p\<lparr>poly := (poly p)\<lparr>monomials :=
            [\<lparr>coefficient = 1, terms = [\<lparr>var = c_var sc, power_t = 1\<rparr>]\<rparr>]\<rparr>\<rparr>)"
  using assms
  by (simp add: TrigPoly_cos.simps [of p] getDegree_def Monomial_getDegree_def subs_def)

section \<open>The claims\<close>

subsection \<open>C1: de-duplication after a mutating operation\<close>

text \<open>
  C1 states that after \<^verbatim>\<open>operator+=\<close> (and the other mutating operations) no two
  monomials of the polynomial have identical exponent vectors. The inner loop of
  \<open>makeMonomialsUnique\<close> stops at \<open>j < i - 1\<close>, so a monomial is never compared with
  the one just before it. For \<open>x\<close> the polynomial of the variable \<^verbatim>\<open>"x"\<close> (identifier
  56) and a copy of it as the operand, \<^verbatim>\<open>x += copy\<close> leaves the two equal monomials
  \<open>x\<close>, \<open>x\<close> side by side.
\<close>

theorem plus_eq_keeps_adjacent_duplicate:
  "Polynomial_var null_offset ''x'' 1 = Inr (Polynomial_coeff_var (1::real) 56) \<and>
   monomials (Polynomial_plus_eq (Polynomial_coeff_var (1::real) 56)
                                 (Polynomial_coeff_var 1 56)) =
     [\<lparr>coefficient = 1, terms = [\<lparr>var = 56, power_t = 1\<rparr>]\<rparr>,
      \<lparr>coefficient = 1, terms = [\<lparr>var = 56, power_t = 1\<rparr>]\<rparr>] \<and>
   \<not> distinct_exponents
       (monomials (Polynomial_plus_eq (Polynomial_coeff_var (1::real) 56)
                                      (Polynomial_coeff_var 1 56)))"
  by (simp add: Polynomial_var_def id_x poly_eval)

subsection \<open>C2: the coefficients of \<open>(x - 1) * (x - 1)\<close>\<close>

text \<open>
  C2 states that \<^verbatim>\<open>getCoefficients()\<close> of \<^verbatim>\<open>(x - 1) * (x - 1)\<close> is \<open>[1, -2, 1]\<close>. The
  product has the monomials \<open>x^2, -x, -x, 1\<close>; the two \<open>-x\<close> are neighbours, so
  \<open>makeMonomialsUnique\<close> does not merge them, and \<open>getCoefficients\<close> assigns (does
  not add) the coefficient of each monomial: the result is \<open>[1, -1, 1]\<close>.
\<close>

theorem getCoefficients_x_minus_1_squared:
  "\<exists>p. x_minus_1_squared null_offset = Inr p \<and>
       monomials p =
         [\<lparr>coefficient = 1, terms = [\<lparr>var = 56, power_t = 2\<rparr>]\<rparr>,
          \<lparr>coefficient = - 1, terms = [\<lparr>var = 56, power_t = 1\<rparr>]\<rparr>,
          \<lparr>coefficient = - 1, terms = [\<lparr>var = 56, power_t = 1\<rparr>]\<rparr>,
          \<lparr>coefficient = 1, terms = []\<rparr>] \<and>
       getCoefficients p = Inr [1, - 1, 1]"
  by (simp add: x_minus_1_squared_def Polynomial_var_def id_x poly_eval getCoefficients_def
      replicate_3 update_2)

subsection \<open>C3: partial evaluation\<close>




subsection \<open>C4: the sin/cos map of a binary \<^verbatim>\<open>TrigPoly\<close> operation\<close>

text \<open>
  C4 states that for a key present in both operands' maps the result has the entry of
  the right-hand operand. The maps are merged with \<^verbatim>\<open>std::map::insert\<close>, which does
  not replace an element whose key is already there: the left-hand entry stays. Here
  both operands map the angle variable 1, the left one to (2, 3) and the right one to
  (4, 5).
\<close>

theorem TrigPoly_map_right_operand_counterexample:
  "sin_cos_map
     (TrigPoly_plus_eq
        \<lparr>poly = Polynomial_coeff_var (1::real) 1, sin_cos_map = [1 \<mapsto> \<lparr>s_var = 2, c_var = 3\<rparr>]\<rparr>
        \<lparr>poly = Polynomial_coeff_var (1::real) 1, sin_cos_map = [1 \<mapsto> \<lparr>s_var = 4, c_var = 5\<rparr>]\<rparr>) 1
     = Some \<lparr>s_var = 2, c_var = 3\<rparr> \<and>
   sin_cos_map
     (TrigPoly_plus_eq
        \<lparr>poly = Polynomial_coeff_var (1::real) 1, sin_cos_map = [1 \<mapsto> \<lparr>s_var = 2, c_var = 3\<rparr>]\<rparr>
        \<lparr>poly = Polynomial_coeff_var (1::real) 1, sin_cos_map = [1 \<mapsto> \<lparr>s_var = 4, c_var = 5\<rparr>]\<rparr>) 1
     \<noteq> sin_cos_map
        \<lparr>poly = Polynomial_coeff_var (1::real) 1, sin_cos_map = [1 \<mapsto> \<lparr>s_var = 4, c_var = 5\<rparr>]\<rparr> 1"
  by (simp add: trig_eval)

text \<open>
  C4, amended: for every pair of TrigPolys \<open>a\<close> and \<open>b\<close>, each of \<open>a += b\<close>,
  \<open>a -= b\<close>, \<open>a *= b\<close> and their value-returning forms gives a sin/cos map whose
  keys are the union of the keys of the two maps; a key of \<open>a\<close>'s map keeps the entry
  of the left-hand operand \<open>a\<close>, and every other key has the entry of \<open>b\<close>.
\<close>

theorem TrigPoly_map_union_left_operand:
  assumes "binop \<in> {TrigPoly_plus_eq, TrigPoly_minus_eq, TrigPoly_times_eq,
                      TrigPoly_plus, TrigPoly_minus, TrigPoly_times}"
  shows "dom (sin_cos_map (binop a b)) = dom (sin_cos_map a) \<union> dom (sin_cos_map b) \<and>
         (\<forall>k \<in> dom (sin_cos_map a). sin_cos_map (binop a b) k = sin_cos_map a k) \<and>
         (\<forall>k. k \<notin> dom (sin_cos_map a) \<longrightarrow> sin_cos_map (binop a b) k = sin_cos_map b k)"
proof -
  have m: "sin_cos_map (binop a b) = map_insert_range (sin_cos_map a) (sin_cos_map b)"
    using assms by (auto simp: trig_eval)
  have "dom (map_insert_range (sin_cos_map a) (sin_cos_map b)) =
          dom (sin_cos_map a) \<union> dom (sin_cos_map b)"
    by (auto simp: map_insert_range_def dom_def split: option.splits)
  moreover have "\<forall>k \<in> dom (sin_cos_map a).
      map_insert_range (sin_cos_map a) (sin_cos_map b) k = sin_cos_map a k"
    by (auto simp: map_insert_range_def)
  moreover have "\<forall>k. k \<notin> dom (sin_cos_map a) \<longrightarrow>
      map_insert_range (sin_cos_map a) (sin_cos_map b) k = sin_cos_map b k"
    by (auto simp: map_insert_range_def dom_def)
  ultimately show ?thesis unfolding m by blast
qed

theorem TrigPoly_map_union_left_operand_witness:
  "dom (sin_cos_map
     (TrigPoly_times_eq
        \<lparr>poly = Polynomial_coeff_var (1::real) 1, sin_cos_map = [1 \<mapsto> \<lparr>s_var = 2, c_var = 3\<rparr>]\<rparr>
        \<lparr>poly = Polynomial_coeff_var (1::real) 7,
           sin_cos_map = [1 \<mapsto> \<lparr>s_var = 4, c_var = 5\<rparr>, 7 \<mapsto> \<lparr>s_var = 8, c_var = 9\<rparr>]\<rparr>))
     = {1, 7} \<and>
   sin_cos_map
     (TrigPoly_times_eq
        \<lparr>poly = Polynomial_coeff_var (1::real) 1, sin_cos_map = [1 \<mapsto> \<lparr>s_var = 2, c_var = 3\<rparr>]\<rparr>
        \<lparr>poly = Polynomial_coeff_var (1::real) 7,
           sin_cos_map = [1 \<mapsto> \<lparr>s_var = 4, c_var = 5\<rparr>, 7 \<mapsto> \<lparr>s_var = 8, c_var = 9\<rparr>]\<rparr>) 1
     = Some \<lparr>s_var = 2, c_var = 3\<rparr> \<and>
   sin_cos_map
     (TrigPoly_times_eq
        \<lparr>poly = Polynomial_coeff_var (1::real) 1, sin_cos_map = [1 \<mapsto> \<lparr>s_var = 2, c_var = 3\<rparr>]\<rparr>
        \<lparr>poly = Polynomial_coeff_var (1::real) 7,
           sin_cos_map = [1 \<mapsto> \<lparr>s_var = 4, c_var = 5\<rparr>, 7 \<mapsto> \<lparr>s_var = 8, c_var = 9\<rparr>]\<rparr>) 7
     = Some \<lparr>s_var = 8, c_var = 9\<rparr>"
proof -
  let ?a = "\<lparr>poly = Polynomial_coeff_var (1::real) 1, sin_cos_map = [1 \<mapsto> \<lparr>s_var = 2, c_var = 3\<rparr>]\<rparr>"
  let ?b = "\<lparr>poly = Polynomial_coeff_var (1::real) 7,
             sin_cos_map = [1 \<mapsto> \<lparr>s_var = 4, c_var = 5\<rparr>, 7 \<mapsto> \<lparr>s_var = 8, c_var = 9\<rparr>]\<rparr>"
  have op: "TrigPoly_times_eq \<in> {TrigPoly_plus_eq, TrigPoly_minus_eq, TrigPoly_times_eq,
                      TrigPoly_plus, TrigPoly_minus, TrigPoly_times}"
    by simp
  note t = TrigPoly_map_union_left_operand [OF op, of ?a ?b]
  have k1: "(1::nat) \<in> dom (sin_cos_map ?a)" by simp
  have k7: "(7::nat) \<notin> dom (sin_cos_map ?a)" by simp
  have "dom (sin_cos_map (TrigPoly_times_eq ?a ?b)) = {1, 7}"
    using t by auto
  moreover have "sin_cos_map (TrigPoly_times_eq ?a ?b) 1 = Some \<lparr>s_var = 2, c_var = 3\<rparr>"
    using t k1 by simp
  moreover have "sin_cos_map (TrigPoly_times_eq ?a ?b) 7 = Some \<lparr>s_var = 8, c_var = 9\<rparr>"
    using t k7 by simp
  ultimately show ?thesis by blast
qed

subsection \<open>C5: names with a character outside the alphabet\<close>

text \<open>
  C5 states that \<^verbatim>\<open>variableNameToId\<close> rejects every name with a character outside the
  30-character alphabet. The function never calls \<open>isValidVariableName\<close> and does not
  test the result of \<^verbatim>\<open>strchr\<close>. For \<^verbatim>\<open>"$"\<close>, which \<open>isValidVariableName\<close> rejects,
  the outcome depends on the undefined offset: when it is 16 the call returns 34, the
  identifier of \<^verbatim>\<open>"m"\<close>. For the name made of the single character \<open>NUL\<close>,
  \<^verbatim>\<open>strchr\<close> finds the terminator of \<^verbatim>\<open>kNameChars\<close> at offset 30 and the call returns
  62, whatever the offset of the null pointer is.
\<close>

theorem variableNameToId_accepts_invalid_name:
  "\<not> isValidVariableName ''$'' \<and>
   variableNameToId 16 ''$'' 1 = Inr 34 \<and>
   CHR 0x00 \<notin> set kNameChars \<and>
   (\<forall>null_offset. variableNameToId null_offset [CHR 0x00] 1 = Inr 62)"
  by (simp add: isValidVariableName_def variableNameToId_def name_step_def name_offset_def
      kNameChars_def kNumNameChars_def kMaxNamePart_def maxId_def u32_id)

subsection \<open>C6: the round trip of a name and an index\<close>

text \<open>
  C6: for every name of 1 to 4 characters of the alphabet and every index \<open>m\<close> with
  \<open>1 \<le> m \<le> maxId\<close>, \<open>variableNameToId\<close> returns an identifier, and
  \<open>idToVariableName\<close> of that identifier is the name followed by the decimal digits of
  \<open>m\<close>: both the base name and the index are recovered.
\<close>

theorem name_id_roundtrip:
  assumes "name \<noteq> []" and "length name \<le> 4"
    and "list_all (\<lambda>c. c \<in> set kNameChars) name"
    and "1 \<le> m" and "m \<le> maxId"
  shows "\<exists>ident. variableNameToId null_offset name m = Inr ident \<and>
           idToVariableName ident = name @ to_string m"
proof -
  let ?ds = "map (\<lambda>c. name_offset null_offset c + 1) name"
  let ?np = "base31 ?ds"
  have m: "m \<le> 2325" using assms(5) by (simp add: maxId_def kMaxNamePart_def)
  have enc: "foldl (name_step null_offset) (1, 0) (rev name) = (31 ^ length name, ?np)"
    using encode_loop [OF assms(3) assms(2)] .
  have all: "list_all (\<lambda>d. 1 \<le> d \<and> d \<le> 30) ?ds"
    using assms(3) by (induction name) (simp_all add: name_offset_le)
  then have all': "list_all (\<lambda>d. d \<le> 30) ?ds"
    by (induction name) simp_all
  have "?np < 31 ^ length name" using base31_less [OF all'] by simp
  also have "(31::nat) ^ length name \<le> 923521" using pow31_le [OF assms(2)] .
  finally have np: "?np < 923521" .
  have mm: "923521 * (m - 1) \<le> 923521 * 2324" using m by simp
  let ?ident = "2 * (?np + 923521 * (m - 1))"
  have np_eq: "snd (foldl (name_step null_offset) (1, 0) (rev name)) = ?np"
    unfolding enc by simp
  have v: "variableNameToId null_offset name m = Inr ?ident"
    unfolding variableNameToId_def np_eq Let_def
    using np m mm assms(4, 5) by (simp add: kMaxNamePart_def u32_id)
  have dec: "id_loop 4 ?np (31 ^ 3) = name"
  proof -
    have "id_loop 4 (0 * 31 ^ 4 + ?np) (31 ^ (4 - 1)) = map (\<lambda>d. kNameChars ! (d - 1)) ?ds"
      using assms(2) by (intro decode_loop [OF all]) simp
    moreover have "map (\<lambda>d. kNameChars ! (d - 1)) ?ds = name"
      using assms(3) by (induction name) (simp_all add: name_offset_nth)
    ultimately show ?thesis by simp
  qed
  have "idToVariableName ?ident = name @ to_string m"
    using np m assms(1, 4) dec
    by (simp add: idToVariableName_def Let_def kMaxNamePart_def kNumNameChars_def
        kNameLength_def u32_id)
  with v show ?thesis by blast
qed

theorem name_id_roundtrip_witness:
  "''x'' \<noteq> [] \<and> length ''x'' \<le> 4 \<and> list_all (\<lambda>c. c \<in> set kNameChars) ''x'' \<and>
   (1::nat) \<le> 1 \<and> 1 \<le> maxId \<and>
   variableNameToId 0 ''x'' 1 = Inr 56 \<and> idToVariableName 56 = ''x1''"
proof -
  have h: "''x'' \<noteq> []" "length ''x'' \<le> 4" "list_all (\<lambda>c. c \<in> set kNameChars) ''x''"
    "(1::nat) \<le> 1" "1 \<le> maxId"
    by (simp_all add: kNameChars_def maxId_def kMaxNamePart_def)
  from name_id_roundtrip [OF h, of 0] obtain ident where
    i: "variableNameToId 0 ''x'' 1 = Inr ident" "idToVariableName ident = ''x'' @ to_string 1"
    by blast
  from i(1) have "ident = 56" using id_x [of 0] by simp
  with i have "variableNameToId 0 ''x'' 1 = Inr 56" "idToVariableName 56 = ''x1''"
    by (simp_all add: to_string_1)
  with h show ?thesis by blast
qed


subsection \<open>C7: the derivative of the integral\<close>




subsection \<open>C8: \<open>cos(x + x)\<close>\<close>

text \<open>
  C8: for the TrigPoly \<open>x\<close> built from the polynomials of the variables \<^verbatim>\<open>"x"\<close>,
  \<^verbatim>\<open>"s"\<close> and \<^verbatim>\<open>"c"\<close> (which print as \<open>x1\<close>, \<open>s1\<close>, \<open>c1\<close>), \<open>cos(x + x)\<close> is the
  polynomial with the two monomials \<open>1 * c1^2\<close> and \<open>-1 * s1^2\<close>, in this order: the
  expansion \<open>cos(a)cos(b) - sin(a)sin(b)\<close> with \<open>a = b = x\<close>.
\<close>

theorem cos_x_plus_x_value:
  "\<exists>r. cos_x_plus_x null_offset = Inr r \<and>
       monomials (poly r) =
         [\<lparr>coefficient = 1, terms = [\<lparr>var = 14, power_t = 2\<rparr>]\<rparr>,
          \<lparr>coefficient = - 1, terms = [\<lparr>var = 46, power_t = 2\<rparr>]\<rparr>] \<and>
       idToVariableName 14 = ''c1'' \<and> idToVariableName 46 = ''s1''"
proof -
  let ?map = "[56 \<mapsto> \<lparr>s_var = 46, c_var = 14\<rparr>]"
  let ?x = "\<lparr>poly = Polynomial_coeff_var (1::real) 56, sin_cos_map = ?map\<rparr>"
  let ?xx = "\<lparr>poly = \<lparr>monomials = [\<lparr>coefficient = 1::real, terms = [\<lparr>var = 56, power_t = 1\<rparr>]\<rparr>,
                                    \<lparr>coefficient = 1, terms = [\<lparr>var = 56, power_t = 1\<rparr>]\<rparr>],
                       is_univariate = True\<rparr>,
              sin_cos_map = ?map\<rparr>"
  have x: "trig_x null_offset = Inr ?x"
    by (simp add: trig_x_def Polynomial_var_def id_x id_s id_c TrigPoly_qsc_def poly_eval)
  have xx: "TrigPoly_plus ?x ?x = ?xx"
    by (simp add: trig_eval poly_eval fun_eq_iff)
  have "TrigPoly_cos ?xx =
          Inr \<lparr>poly = \<lparr>monomials =
                  [\<lparr>coefficient = 1, terms = [\<lparr>var = 14, power_t = 2\<rparr>]\<rparr>,
                   \<lparr>coefficient = - 1, terms = [\<lparr>var = 46, power_t = 2\<rparr>]\<rparr>],
                 is_univariate = False\<rparr>,
               sin_cos_map = ?map\<rparr>"
    by (subst TrigPoly_cos.simps)
       (simp add: trig_eval poly_eval sin_linear cos_linear fun_eq_iff)
  with x xx show ?thesis
    by (simp add: cos_x_plus_x_def name_c1 name_s1)
qed

theorem cos_x_plus_x_value_witness:
  "\<exists>r. cos_x_plus_x 0 = Inr r \<and>
       monomials (poly r) =
         [\<lparr>coefficient = 1, terms = [\<lparr>var = 14, power_t = 2\<rparr>]\<rparr>,
          \<lparr>coefficient = - 1, terms = [\<lparr>var = 46, power_t = 2\<rparr>]\<rparr>]"
  using cos_x_plus_x_value [of 0] by blast

subsection \<open>C9: the cosine of a negated variable\<close>

text \<open>
  C9: for every TrigPoly whose polynomial is the single monomial \<open>-1 * v\<close>, where \<open>v\<close>
  is mapped to the placeholders \<open>(s, c)\<close>, \<open>cos\<close> replaces \<open>v\<close> by \<open>c\<close> and then
  multiplies by \<open>-1\<close>: the polynomial returned is \<open>+1 * c\<close>.
\<close>

theorem cos_negated_variable:
  assumes "monomials (poly p) = [\<lparr>coefficient = - 1, terms = [\<lparr>var = v, power_t = 1\<rparr>]\<rparr>]"
    and "sin_cos_map p v = Some sc"
  shows "TrigPoly_cos p =
           Inr (TrigPoly_times_eq_scalar (p\<lparr>poly := subs (poly p) v (c_var sc)\<rparr>) (- 1)) \<and>
         TrigPoly_cos p =
           Inr (p\<lparr>poly := (poly p)\<lparr>monomials :=
                  [\<lparr>coefficient = 1, terms = [\<lparr>var = c_var sc, power_t = 1\<rparr>]\<rparr>]\<rparr>\<rparr>)"
  using assms
  by (simp add: TrigPoly_cos.simps [of p] getDegree_def Monomial_getDegree_def subs_def
        TrigPoly_times_eq_scalar_def Polynomial_times_eq_scalar_def)

theorem cos_negated_variable_witness:
  "monomials (poly \<lparr>poly = Polynomial_coeff_var (- 1) 56,
                    sin_cos_map = [56 \<mapsto> \<lparr>s_var = 46, c_var = 14\<rparr>]\<rparr>) =
     [\<lparr>coefficient = - 1, terms = [\<lparr>var = 56, power_t = 1\<rparr>]\<rparr>] \<and>
   sin_cos_map \<lparr>poly = Polynomial_coeff_var (- 1) 56,
                sin_cos_map = [56 \<mapsto> \<lparr>s_var = 46, c_var = 14\<rparr>]\<rparr> 56 =
     Some \<lparr>s_var = 46, c_var = 14\<rparr> \<and>
   TrigPoly_cos \<lparr>poly = Polynomial_coeff_var (- 1) 56,
                 sin_cos_map = [56 \<mapsto> \<lparr>s_var = 46, c_var = 14\<rparr>]\<rparr> =
     Inr \<lparr>poly = Polynomial_coeff_var 1 14,
          sin_cos_map = [56 \<mapsto> \<lparr>s_var = 46, c_var = 14\<rparr>]\<rparr>"
proof -
  let ?p = "\<lparr>poly = Polynomial_coeff_var (- 1) 56,
             sin_cos_map = [56 \<mapsto> \<lparr>s_var = 46, c_var = 14\<rparr>]\<rparr>"
  have h1: "monomials (poly ?p) = [\<lparr>coefficient = - 1, terms = [\<lparr>var = 56, power_t = 1\<rparr>]\<rparr>]"
    by (simp add: Polynomial_coeff_var_def)
  have h2: "sin_cos_map ?p 56 = Some \<lparr>s_var = 46, c_var = 14\<rparr>" by simp
  from cos_negated_variable [OF h1 h2, THEN conjunct2]
  have "TrigPoly_cos ?p = Inr \<lparr>poly = Polynomial_coeff_var 1 14,
          sin_cos_map = [56 \<mapsto> \<lparr>s_var = 46, c_var = 14\<rparr>]\<rparr>"
    by (simp add: Polynomial_coeff_var_def)
  with h1 h2 show ?thesis by blast
qed

subsection \<open>C10: the sine of a product of two variables\<close>

text \<open>
  C10: for a TrigPoly whose polynomial is the single monomial \<open>x * y\<close>, with two
  different variables of power 1 that both have a sin/cos mapping, the degree is the
  product \<open>1 * 1 = 1\<close>, so \<open>sin\<close> does not fail with the degree error; it replaces the
  variable of the first term by its sine placeholder and leaves the term of \<open>y\<close>.
\<close>

theorem sin_product_monomial:
  assumes "monomials (poly p) =
             [\<lparr>coefficient = 1, terms = [\<lparr>var = x, power_t = 1\<rparr>, \<lparr>var = y, power_t = 1\<rparr>]\<rparr>]"
    and "x \<noteq> y"
    and "sin_cos_map p x = Some scx" and "sin_cos_map p y = Some scy"
  shows "getDegree (poly p) = 1 \<and>
         TrigPoly_sin p \<noteq> Inl UnsupportedDegree \<and>
         TrigPoly_sin p =
           Inr (p\<lparr>poly := (poly p)\<lparr>monomials :=
                  [\<lparr>coefficient = 1,
                    terms = [\<lparr>var = s_var scx, power_t = 1\<rparr>, \<lparr>var = y, power_t = 1\<rparr>]\<rparr>]\<rparr>\<rparr>)"
  using assms
  by (simp add: TrigPoly_sin.simps [of p] getDegree_def Monomial_getDegree_def subs_def)

theorem sin_product_monomial_witness:
  "(56::nat) \<noteq> 58 \<and>
   TrigPoly_sin
     \<lparr>poly = \<lparr>monomials = [\<lparr>coefficient = 1,
                 terms = [\<lparr>var = 56, power_t = 1\<rparr>, \<lparr>var = 58, power_t = 1\<rparr>]\<rparr>],
              is_univariate = False\<rparr>,
      sin_cos_map = [56 \<mapsto> \<lparr>s_var = 46, c_var = 14\<rparr>, 58 \<mapsto> \<lparr>s_var = 48, c_var = 16\<rparr>]\<rparr> =
   Inr \<lparr>poly = \<lparr>monomials = [\<lparr>coefficient = 1,
                 terms = [\<lparr>var = 46, power_t = 1\<rparr>, \<lparr>var = 58, power_t = 1\<rparr>]\<rparr>],
              is_univariate = False\<rparr>,
      sin_cos_map = [56 \<mapsto> \<lparr>s_var = 46, c_var = 14\<rparr>, 58 \<mapsto> \<lparr>s_var = 48, c_var = 16\<rparr>]\<rparr>"
proof -
  let ?map = "[56 \<mapsto> \<lparr>s_var = 46, c_var = 14\<rparr>, 58 \<mapsto> \<lparr>s_var = 48, c_var = 16\<rparr>]"
  let ?p = "\<lparr>poly = \<lparr>monomials = [\<lparr>coefficient = 1,
                 terms = [\<lparr>var = 56, power_t = 1\<rparr>, \<lparr>var = 58, power_t = 1\<rparr>]\<rparr>],
              is_univariate = False\<rparr>, sin_cos_map = ?map\<rparr>"
  have h1: "monomials (poly ?p) =
     [\<lparr>coefficient = 1, terms = [\<lparr>var = 56, power_t = 1\<rparr>, \<lparr>var = 58, power_t = 1\<rparr>]\<rparr>]"
    by simp
  have h2: "(56::nat) \<noteq> 58" by simp
  have h3: "sin_cos_map ?p 56 = Some \<lparr>s_var = 46, c_var = 14\<rparr>" by simp
  have h4: "sin_cos_map ?p 58 = Some \<lparr>s_var = 48, c_var = 16\<rparr>" by simp
  from sin_product_monomial [OF h1 h2 h3 h4] h2 show ?thesis by simp
qed

end
